theory Spec2Isabelle
  imports Complex_Main
begin

section \<open>Floating-point values\<close>

text \<open>
  The dashboard computes on 64-bit floats (pandas columns and numpy scalars).  A float is
  modelled as a real number or one of the three special values of IEEE 754.  Division
  follows numpy: dividing by zero raises nothing, it yields an infinity, or not-a-number
  for 0/0.

  The model is exact where the machine is not: a finite result is the exact real result,
  without the rounding error of binary arithmetic, without overflow to an infinity, and
  without the sign of zero.  So a statement about the value of a sum, a mean or a
  deviation of several numbers is a statement about the formula that the code evaluates,
  not about the last bits of what it prints.  What is exact on the machine as well is
  used where a result depends on a value being zero: \<open>0 * 100\<close>, a quotient with divisor
  zero, and the statistics of a series of a single number.
\<close>

datatype float64 = Fin real | PInf | NInf | NaN

fun fneg :: "float64 \<Rightarrow> float64" where
  "fneg (Fin x) = Fin (- x)"
| "fneg PInf = NInf"
| "fneg NInf = PInf"
| "fneg NaN = NaN"

fun fadd :: "float64 \<Rightarrow> float64 \<Rightarrow> float64" where
  "fadd (Fin x) (Fin y) = Fin (x + y)"
| "fadd NaN _ = NaN"
| "fadd _ NaN = NaN"
| "fadd PInf NInf = NaN"
| "fadd NInf PInf = NaN"
| "fadd PInf _ = PInf"
| "fadd NInf _ = NInf"
| "fadd _ PInf = PInf"
| "fadd _ NInf = NInf"

definition fsub :: "float64 \<Rightarrow> float64 \<Rightarrow> float64" where
  "fsub a b = fadd a (fneg b)"

text \<open>The sign of a float that is not NaN: \<open>-1\<close>, \<open>0\<close> or \<open>1\<close>.\<close>

fun fsign :: "float64 \<Rightarrow> int" where
  "fsign (Fin x) = (if x < 0 then - 1 else if x = 0 then 0 else 1)"
| "fsign PInf = 1"
| "fsign NInf = - 1"
| "fsign NaN = 0"

definition inf_of_sign :: "int \<Rightarrow> float64" where
  "inf_of_sign s = (if s = 0 then NaN else if s < 0 then NInf else PInf)"

fun fmul :: "float64 \<Rightarrow> float64 \<Rightarrow> float64" where
  "fmul (Fin x) (Fin y) = Fin (x * y)"
| "fmul NaN _ = NaN"
| "fmul _ NaN = NaN"
| "fmul a b = inf_of_sign (fsign a * fsign b)"

fun fdiv :: "float64 \<Rightarrow> float64 \<Rightarrow> float64" where
  "fdiv (Fin x) (Fin y) = (if y = 0 then inf_of_sign (fsign (Fin x)) else Fin (x / y))"
| "fdiv NaN _ = NaN"
| "fdiv _ NaN = NaN"
| "fdiv (Fin x) _ = Fin 0"
| "fdiv a (Fin y) = inf_of_sign (fsign a * (if y < 0 then - 1 else 1))"
| "fdiv _ _ = NaN"

fun fsqrt :: "float64 \<Rightarrow> float64" where
  "fsqrt (Fin x) = (if x < 0 then NaN else Fin (sqrt x))"
| "fsqrt PInf = PInf"
| "fsqrt NInf = NaN"
| "fsqrt NaN = NaN"

definition fsum :: "float64 list \<Rightarrow> float64" where
  "fsum xs = foldl fadd (Fin 0) xs"

text \<open>
  \<open>round(x, 4)\<close> on a numpy float: scale by \<open>10^4\<close>, round to the nearest integer with
  ties to the even one, scale back.  Infinities and NaN are returned unchanged.
\<close>

definition rint :: "real \<Rightarrow> int" where
  "rint x =
     (let f = \<lfloor>x\<rfloor>; d = x - of_int f
      in if d < 1 / 2 then f else if 1 / 2 < d then f + 1 else if even f then f else f + 1)"

fun round4 :: "float64 \<Rightarrow> float64" where
  "round4 (Fin x) = Fin (of_int (rint (x * 10000)) / 10000)"
| "round4 v = v"

section \<open>Series statistics\<close>

text \<open>
  \<open>Series.mean()\<close> and \<open>np.std(series)\<close> (which pandas answers with \<open>series.std(ddof=0)\<close>,
  the population standard deviation) skip NaN entries and return NaN when nothing is left.
\<close>

definition skipna :: "float64 list \<Rightarrow> float64 list" where
  "skipna xs = filter (\<lambda>v. v \<noteq> NaN) xs"

definition series_mean :: "float64 list \<Rightarrow> float64" where
  "series_mean xs =
     (let ys = skipna xs
      in if ys = [] then NaN else fdiv (fsum ys) (Fin (real (length ys))))"

definition series_std :: "float64 list \<Rightarrow> float64" where
  "series_std xs =
     (let ys = skipna xs
      in if ys = [] then NaN
         else let avg = fdiv (fsum ys) (Fin (real (length ys)));
                  sqr = map (\<lambda>v. fmul (fsub avg v) (fsub avg v)) ys
              in fsqrt (fdiv (fsum sqr) (Fin (real (length ys)))))"

section \<open>Data frames\<close>

text \<open>
  A cell of a pandas table: a float, a string, a timestamp, or a missing object
  (\<open>None\<close>, \<open>NaT\<close>).  A price table is a list of column names and a list of rows; a row
  gives the cell of each column.  Only the cells of the listed columns belong to the table.
\<close>

datatype cell = Num float64 | Txt string | Stamp nat | NA

type_synonym row = "string \<Rightarrow> cell"

record frame =
  columns :: "string list"
  rows :: "row list"

datatype py_error = KeyError string | TypeError | ValueError string

text \<open>\<open>DataFrame.empty\<close>: some axis has length zero.\<close>

definition empty_frame :: "frame \<Rightarrow> bool" where
  "empty_frame df = (columns df = [] \<or> rows df = [])"

definition isna :: "cell \<Rightarrow> bool" where
  "isna c = (c = NA \<or> c = Num NaN)"

text \<open>\<open>df[c]\<close> raises \<open>KeyError\<close> for a column the table does not have.\<close>

definition getcol :: "string \<Rightarrow> frame \<Rightarrow> py_error + cell list" where
  "getcol c df = (if c \<in> set (columns df) then Inr (map (\<lambda>r. r c) (rows df)) else Inl (KeyError c))"

text \<open>\<open>df[c] = values\<close>: overwrite the column, or append it as the last one.\<close>

definition setcol :: "string \<Rightarrow> cell list \<Rightarrow> frame \<Rightarrow> frame" where
  "setcol c vs df =
     \<lparr>columns = (if c \<in> set (columns df) then columns df else columns df @ [c]),
      rows = map2 (\<lambda>r v. r(c := v)) (rows df) vs\<rparr>"

text \<open>\<open>dropna(subset=cs)\<close> keeps the rows with no missing cell among the columns \<open>cs\<close>;
  \<open>dropna()\<close> looks at every column.\<close>

definition dropna_subset :: "string list \<Rightarrow> frame \<Rightarrow> frame" where
  "dropna_subset cs df = df\<lparr>rows := filter (\<lambda>r. list_all (\<lambda>c. \<not> isna (r c)) cs) (rows df)\<rparr>"

definition dropna :: "frame \<Rightarrow> frame" where
  "dropna df = dropna_subset (columns df) df"

text \<open>
  The numbers of a column, for \<open>mean\<close> and \<open>std\<close>: a missing cell counts as NaN, a text
  or a timestamp is a \<open>TypeError\<close>.
\<close>

fun floats :: "cell list \<Rightarrow> py_error + float64 list" where
  "floats [] = Inr []"
| "floats (Num v # cs) = (case floats cs of Inl e \<Rightarrow> Inl e | Inr vs \<Rightarrow> Inr (v # vs))"
| "floats (NA # cs) = (case floats cs of Inl e \<Rightarrow> Inl e | Inr vs \<Rightarrow> Inr (NaN # vs))"
| "floats (_ # cs) = Inl TypeError"

text \<open>\<open>series.shift(1)\<close>: every value moves one row down, the first row gets NaN.\<close>

definition shift1 :: "cell list \<Rightarrow> cell list" where
  "shift1 cs = (if cs = [] then [] else Num NaN # butlast cs)"

text \<open>
  The quotient of two cells in \<open>series / series\<close>.  Where one of the two cells is missing
  the result is NaN and nothing is raised, whatever the other cell is; two numbers are
  divided; any other pair of cells cannot be divided, which is a \<open>TypeError\<close>.
\<close>

definition cell_div :: "cell \<Rightarrow> cell \<Rightarrow> py_error + float64" where
  "cell_div c d =
     (if isna c \<or> isna d then Inr NaN
      else (case (c, d) of (Num a, Num b) \<Rightarrow> Inr (fdiv a b) | _ \<Rightarrow> Inl TypeError))"

text \<open>The results of the rows, or the first error among them.\<close>

fun collect :: "('e + 'a) list \<Rightarrow> 'e + 'a list" where
  "collect [] = Inr []"
| "collect (Inl e # xs) = Inl e"
| "collect (Inr x # xs) = (case collect xs of Inl e \<Rightarrow> Inl e | Inr ys \<Rightarrow> Inr (x # ys))"

text \<open>\<open>series / series.shift(1) - 1\<close>, row by row.\<close>

definition pct_change :: "cell list \<Rightarrow> py_error + float64 list" where
  "pct_change cs =
     (case collect (map2 cell_div cs (shift1 cs)) of
        Inl e \<Rightarrow> Inl e
      | Inr qs \<Rightarrow> Inr (map (\<lambda>q. fsub q (Fin 1)) qs))"

section \<open>Output of a view\<close>

text \<open>
  A view returns nothing; what it does is call the UI framework and the external data
  sources.  A run of a view is modelled by the list of these calls, in order; an uncaught
  Python exception ends the list.
\<close>

record article =
  title :: string
  published :: string
  summary :: string
  sentiment_title :: string
  sentiment_summary :: string

text \<open>
  A fundamentals table: row labels, column labels, and the cell at each position (row
  number, column number).  Only positions inside the two label lists belong to the table.
\<close>

record table =
  tindex :: "cell list"
  tcolumns :: "cell list"
  tvalues :: "nat \<Rightarrow> nat \<Rightarrow> cell"

datatype event =
    Warning string
  | Error string
  | Header string
  | Subheader string
  | Divider
  | Markdown string
  | Metric string float64 string
  | Write_frame frame
  | Write_columns "string list"
  | Write_table "table option"
  | Chart "cell list" "(string \<times> cell list) list"
  | Download string
  | Fetch string string
  | Read_rss string
  | Prophet_fit frame nat
  | Forecast_chart
  | Forecast_components
  | Forecast_table
  | Raise py_error

section \<open>Stock overview\<close>

text \<open>\<open>plot_ticker_data\<close>: one chart with three traces over the dates.\<close>

definition plot_ticker_data :: "frame \<Rightarrow> py_error + event" where
  "plot_ticker_data data =
     (case getcol ''Date'' data of Inl e \<Rightarrow> Inl e | Inr dates \<Rightarrow>
       (case getcol ''Open'' data of Inl e \<Rightarrow> Inl e | Inr opens \<Rightarrow>
          (case getcol ''Close'' data of Inl e \<Rightarrow> Inl e | Inr closes \<Rightarrow>
             if ''Adj Close'' \<in> set (columns data)
             then (case getcol ''Adj Close'' data of Inl e \<Rightarrow> Inl e | Inr adj \<Rightarrow>
                     Inr (Chart dates [(''Stock Open'', opens), (''Stock Close'', closes),
                                       (''Adj. Close'', adj)]))
             else Inr (Chart dates [(''Stock Open'', opens), (''Stock Close'', closes),
                                    (''Adj. Close (using Close)'', closes)]))))"

text \<open>
  \<open>get_metrics\<close>.  Each \<open>st.metric\<close> call shows the rounded number followed by the
  suffix \<open>%\<close>.
\<close>

definition annual_return :: "float64 list \<Rightarrow> float64" where
  "annual_return pc = fmul (fmul (series_mean pc) (Fin 252)) (Fin 100)"

definition st_dev :: "float64 list \<Rightarrow> float64" where
  "st_dev pc = fmul (series_std pc) (fsqrt (Fin 252))"

text \<open>The quotient \<open>annual_return/(st_dev*100)\<close> of the two numbers computed before.\<close>

definition risk_ratio :: "float64 \<Rightarrow> float64 \<Rightarrow> float64" where
  "risk_ratio annual dev = fdiv annual (fmul dev (Fin 100))"

definition risk_adjusted :: "float64 list \<Rightarrow> float64" where
  "risk_adjusted pc = risk_ratio (annual_return pc) (st_dev pc)"

definition metrics :: "float64 list \<Rightarrow> event list" where
  "metrics pc =
     [Metric ''Annual Return'' (round4 (annual_return pc)) ''%'',
      Metric ''Standard Deviation'' (round4 (st_dev pc)) ''%'',
      Metric ''Risk Adjusted Return'' (round4 (risk_adjusted pc)) ''%'']"

definition get_metrics :: "frame \<Rightarrow> event list" where
  "get_metrics data_copy =
     (case getcol ''% Change'' data_copy of Inl e \<Rightarrow> [Raise e] | Inr cs \<Rightarrow>
       (case floats cs of Inl e \<Rightarrow> [Raise e] | Inr pc \<Rightarrow> metrics pc))"

text \<open>
  The \<open>returns\<close> preparation of \<open>current\<close>: choose the price column, add the
  \<open>% Change\<close> column, drop every row that has a missing cell in any column.
\<close>

definition price_col :: "frame \<Rightarrow> string" where
  "price_col data = (if ''Adj Close'' \<in> set (columns data) then ''Adj Close'' else ''Close'')"

definition returns_mode :: "frame \<Rightarrow> py_error + frame" where
  "returns_mode data =
     (case getcol (price_col data) data of Inl e \<Rightarrow> Inl e | Inr cs \<Rightarrow>
       (case pct_change cs of Inl e \<Rightarrow> Inl e | Inr vs \<Rightarrow>
          Inr (dropna (setcol ''% Change'' (map Num vs) data))))"

text \<open>
  \<open>current\<close>.  The parameter \<open>load_data\<close> is the market data source: the table that
  \<open>yf.download\<close> returns for the ticker and the chosen date range, with the dates as the
  column \<open>Date\<close>.
\<close>

definition current :: "(string \<Rightarrow> frame) \<Rightarrow> string \<Rightarrow> event list" where
  "current load_data ticker =
     (if ticker = [] then [Warning ''Stock Ticker Empty'']
      else let data = load_data ticker
           in Download ticker #
              (if empty_frame data then [Error ''Invalid Ticker'']
               else Subheader ''Time Series Chart'' #
                 (case plot_ticker_data data of Inl e \<Rightarrow> [Raise e] | Inr chart \<Rightarrow>
                    chart # Subheader ''Stock Analysis'' #
                      (case returns_mode data of Inl e \<Rightarrow> [Raise e] | Inr data_copy \<Rightarrow>
                         Write_frame data_copy # Divider # get_metrics data_copy))))"

section \<open>Stock forecast\<close>

text \<open>
  \<open>pd.to_numeric(errors="coerce")\<close> on one cell: a number stays, a string is parsed, and
  whatever cannot be converted becomes NaN.  The parser of strings belongs to pandas and is
  a parameter; it returns NaN for a string that is not a number.  A timestamp is not
  converted.
\<close>

fun to_numeric :: "(string \<Rightarrow> float64) \<Rightarrow> cell \<Rightarrow> cell" where
  "to_numeric parse (Num v) = Num v"
| "to_numeric parse (Txt s) = Num (parse s)"
| "to_numeric parse (Stamp t) = Num NaN"
| "to_numeric parse NA = Num NaN"

text \<open>\<open>data[["Date", pc]].copy().rename(columns={"Date": "ds", pc: "y"})\<close>\<close>

definition select_rename :: "string \<Rightarrow> frame \<Rightarrow> frame" where
  "select_rename pc data =
     \<lparr>columns = [''ds'', ''y''],
      rows = map (\<lambda>r. (\<lambda>c. NA)(''ds'' := r ''Date'', ''y'' := r pc)) (rows data)\<rparr>"

text \<open>The cleaning of the training table: the two \<open>dropna\<close> calls around the coercion.\<close>

definition clean_train :: "(string \<Rightarrow> float64) \<Rightarrow> frame \<Rightarrow> frame" where
  "clean_train parse df_train =
     (let df1 = dropna_subset [''ds'', ''y''] df_train;
          df2 = df1\<lparr>rows := map (\<lambda>r. r(''y'' := to_numeric parse (r ''y''))) (rows df1)\<rparr>
      in dropna_subset [''y''] df2)"

definition forecast_input :: "(string \<Rightarrow> float64) \<Rightarrow> string \<Rightarrow> frame \<Rightarrow> frame" where
  "forecast_input parse pc data = clean_train parse (select_rename pc data)"

text \<open>How Python prints a list of strings inside an f-string.\<close>

definition repr_list :: "string list \<Rightarrow> string" where
  "repr_list cs =
     ''['' @ concat (map (\<lambda>(i, c). (if i = 0 then [] else '', '') @ [CHR 0x27] @ c @ [CHR 0x27])
                        (zip [0..<length cs] cs)) @ '']''"

text \<open>\<open>df.head()\<close>: the first five rows.\<close>

definition head5 :: "frame \<Rightarrow> frame" where
  "head5 df = df\<lparr>rows := take 5 (rows df)\<rparr>"

text \<open>
  \<open>forecast\<close>.  The forecasting library is external: \<open>Prophet_fit df n\<close> stands for
  fitting the model on \<open>df\<close> and predicting \<open>n\<close> further days, the three events after it
  for drawing and writing its result.  The library refuses a table with fewer than two
  rows: \<open>fit\<close> raises \<open>ValueError\<close>, which the view does not catch.
\<close>

definition forecast_col :: "frame \<Rightarrow> string option" where
  "forecast_col data =
     (if ''Close'' \<in> set (columns data) then Some ''Close''
      else if ''Adj Close'' \<in> set (columns data) then Some ''Adj Close''
      else None)"

definition forecast :: "(string \<Rightarrow> frame) \<Rightarrow> (string \<Rightarrow> float64) \<Rightarrow> nat \<Rightarrow> string \<Rightarrow> event list" where
  "forecast load_data parse n_years ticker =
     (if ticker = [] then [Warning ''Stock Ticker Empty'']
      else let data = load_data ticker
           in Download ticker #
              (if empty_frame data then [Error ''Invalid Ticker'']
               else (case forecast_col data of
                  None \<Rightarrow>
                    [Error ''Data does not contain required columns for forecasting.'',
                     Write_columns (columns data)]
                | Some pc \<Rightarrow>
                    (if ''Date'' \<notin> set (columns data)
                     then [Error ''Data does not contain required columns for forecasting.'',
                           Write_columns (columns data)]
                     else let df_train = select_rename pc data;
                              missing_cols = filter (\<lambda>c. c \<notin> set (columns df_train)) [''ds'', ''y'']
                          in if missing_cols \<noteq> []
                             then [Error (''Missing columns after renaming: '' @ repr_list missing_cols),
                                   Write_frame (head5 df_train)]
                             else let df_clean = clean_train parse df_train
                                  in if empty_frame df_clean
                                     then [Error ''Prepared data for Prophet is empty after cleaning.'',
                                           Write_frame (head5 df_clean)]
                                     else if length (rows df_clean) < 2
                                     then [Prophet_fit df_clean (n_years * 365),
                                           Raise (ValueError ''Dataframe has less than 2 non-NaN rows.'')]
                                     else [Prophet_fit df_clean (n_years * 365),
                                           Subheader ''Forecast Chart'', Forecast_chart,
                                           Subheader ''Forecast Components'', Forecast_components,
                                           Subheader ''Forecast Analysis'', Forecast_table]))))"

section \<open>Accounting data\<close>

definition empty_table :: "table \<Rightarrow> bool" where
  "empty_table t = (tindex t = [] \<or> tcolumns t = [])"

text \<open>\<open>t.T\<close>, \<open>t[k:]\<close> (rows from position \<open>k\<close> on) and \<open>list(t.iloc[i])\<close> (the cells of row \<open>i\<close>).\<close>

definition transposeT :: "table \<Rightarrow> table" where
  "transposeT t = \<lparr>tindex = tcolumns t, tcolumns = tindex t, tvalues = (\<lambda>i j. tvalues t j i)\<rparr>"

definition rows_from :: "nat \<Rightarrow> table \<Rightarrow> table" where
  "rows_from k t = \<lparr>tindex = drop k (tindex t), tcolumns = tcolumns t, tvalues = (\<lambda>i j. tvalues t (i + k) j)\<rparr>"

definition iloc_row :: "nat \<Rightarrow> table \<Rightarrow> cell list" where
  "iloc_row i t = map (\<lambda>j. tvalues t i j) [0..<length (tcolumns t)]"

text \<open>
  The bodies of the three retrievers, applied to the table that the fundamentals client
  returned: the messages shown and the value returned (\<open>None\<close> after the error message).
  In a table that is not empty the transpose has a first row, and that row has one cell
  for each of its columns, so the assignment of the column labels cannot fail.
\<close>

definition balance_sheet_of :: "table \<Rightarrow> event list \<times> table option" where
  "balance_sheet_of balance_sheet =
     (if empty_table balance_sheet then ([Error ''Invalid Ticker''], None)
      else let bs = rows_from 2 (transposeT balance_sheet)
           in ([], Some (bs\<lparr>tcolumns := iloc_row 0 (transposeT balance_sheet)\<rparr>)))"

definition income_statement_of :: "table \<Rightarrow> event list \<times> table option" where
  "income_statement_of income_statement =
     (if empty_table income_statement then ([Error ''Invalid Ticker''], None)
      else let ics = rows_from 2 (transposeT income_statement)
           in ([], Some ics))"

definition cashflow_statement_of :: "table \<Rightarrow> event list \<times> table option" where
  "cashflow_statement_of cash_flow =
     (if empty_table cash_flow then ([Error ''Invalid Ticker''], None)
      else let cf = rows_from 2 (transposeT cash_flow)
           in ([], Some (cf\<lparr>tcolumns := iloc_row 0 (transposeT cash_flow)\<rparr>)))"

text \<open>
  The caching decorators.  A decorated function keeps a store from the key of its
  arguments to the outcome of its first run with that key: the messages it showed and the
  value it returned.  A later call with the same key runs nothing; it shows the stored
  messages again and returns the stored value.  The only argument is the client handle
  \<open>_fd\<close>, so the key is a function \<open>key_of\<close> of the handle alone.  The framework leaves
  an argument whose name starts with an underscore out of the key, and \<open>_fd\<close> is such an
  argument: the key of the three retrievers is \<open>unhashed\<close>, the same for every handle.
  The ticker is a global variable that the body reads; it is not part of the key.
\<close>

definition unhashed :: "'h \<Rightarrow> unit" where
  "unhashed fd = ()"

type_synonym 'k store = "'k \<Rightarrow> (event list \<times> table option) option"

definition cached ::
  "('h \<Rightarrow> 'k) \<Rightarrow> ('h \<Rightarrow> string \<Rightarrow> event list \<times> event list \<times> table option) \<Rightarrow>
   'k store \<Rightarrow> 'h \<Rightarrow> string \<Rightarrow> (event list \<times> table option) \<times> 'k store" where
  "cached key_of body store fd ticker =
     (case store (key_of fd) of
        Some (msgs, res) \<Rightarrow> ((msgs, res), store)
      | None \<Rightarrow>
          (case body fd ticker of (calls, msgs, res) \<Rightarrow>
             ((calls @ msgs, res), store(key_of fd \<mapsto> (msgs, res)))))"

text \<open>
  The fundamentals client: for a handle and a ticker, the three annual tables.  Each
  retriever body asks the client for the table of the current ticker.
\<close>

record 'h fundamental_data =
  get_balance_sheet_annual :: "'h \<Rightarrow> string \<Rightarrow> table"
  get_income_statement_annual :: "'h \<Rightarrow> string \<Rightarrow> table"
  get_cash_flow_annual :: "'h \<Rightarrow> string \<Rightarrow> table"

definition get_balance_sheet ::
  "('h \<Rightarrow> 'k) \<Rightarrow> 'h fundamental_data \<Rightarrow> 'k store \<Rightarrow> 'h \<Rightarrow> string \<Rightarrow>
   (event list \<times> table option) \<times> 'k store" where
  "get_balance_sheet key_of api =
     cached key_of (\<lambda>fd ticker. case balance_sheet_of (get_balance_sheet_annual api fd ticker) of
                      (msgs, res) \<Rightarrow> ([Fetch ''balance_sheet_annual'' ticker], msgs, res))"

definition get_income_statement ::
  "('h \<Rightarrow> 'k) \<Rightarrow> 'h fundamental_data \<Rightarrow> 'k store \<Rightarrow> 'h \<Rightarrow> string \<Rightarrow>
   (event list \<times> table option) \<times> 'k store" where
  "get_income_statement key_of api =
     cached key_of (\<lambda>fd ticker. case income_statement_of (get_income_statement_annual api fd ticker) of
                      (msgs, res) \<Rightarrow> ([Fetch ''income_statement_annual'' ticker], msgs, res))"

definition get_cashflow_statement ::
  "('h \<Rightarrow> 'k) \<Rightarrow> 'h fundamental_data \<Rightarrow> 'k store \<Rightarrow> 'h \<Rightarrow> string \<Rightarrow>
   (event list \<times> table option) \<times> 'k store" where
  "get_cashflow_statement key_of api =
     cached key_of (\<lambda>fd ticker. case cashflow_statement_of (get_cash_flow_annual api fd ticker) of
                      (msgs, res) \<Rightarrow> ([Fetch ''cash_flow_annual'' ticker], msgs, res))"

text \<open>
  \<open>fundamental\<close>, with the three stores passed in and returned.  \<open>fd\<close> is the client built
  from the API key of the environment; an object of that class is always true, so the
  branch for \<open>not fd\<close> is never taken.
\<close>

record 'k stores =
  bs_store :: "'k store"
  ics_store :: "'k store"
  cf_store :: "'k store"

definition fundamental ::
  "('h \<Rightarrow> 'k) \<Rightarrow> 'h fundamental_data \<Rightarrow> 'h \<Rightarrow> 'k stores \<Rightarrow> string \<Rightarrow> event list \<times> 'k stores" where
  "fundamental key_of api fd st ticker =
     (if ticker = [] then ([Warning ''Stock Ticker Empty''], st)
      else case get_balance_sheet key_of api (bs_store st) fd ticker of ((ev1, bs), s1) \<Rightarrow>
           case get_income_statement key_of api (ics_store st) fd ticker of ((ev2, ics), s2) \<Rightarrow>
           case get_cashflow_statement key_of api (cf_store st) fd ticker of ((ev3, cf), s3) \<Rightarrow>
             (Subheader ''Balance Sheet'' # ev1 @ Write_table bs #
              Subheader ''Income Statement'' # ev2 @ Write_table ics #
              Subheader ''Cash Flow Statement'' # ev3 @ [Write_table cf],
              \<lparr>bs_store = s1, ics_store = s2, cf_store = s3\<rparr>))"

section \<open>Market news\<close>

text \<open>
  \<open>news\<close>.  \<open>read_rss\<close> is the news source; the two sentiment scores of an article are
  kept as the text that is shown for them.
\<close>

definition news_item :: "article \<Rightarrow> event list" where
  "news_item a =
     [Divider,
      Subheader (''**'' @ title a @ ''**''),
      Markdown (''_**Published:**_ '' @ published a),
      Markdown (''_'' @ summary a @ ''_''),
      Markdown (''_**Sentiment:**_ :green[title='' @ sentiment_title a @ '', body=''
                @ sentiment_summary a @ '']'')]"

definition news :: "(string \<Rightarrow> article list) \<Rightarrow> string \<Rightarrow> event list" where
  "news read_rss ticker =
     (if ticker = [] then [Warning ''Stock Ticker Empty'']
      else let df_news = read_rss ticker
           in Header (ticker @ '' News'') # Read_rss ticker #
              concat (map news_item (take (min 10 (length df_news)) df_news)))"

section \<open>Statistics on real numbers\<close>

text \<open>Mean and population standard deviation of a list of reals, to state results with.\<close>

definition mean :: "real list \<Rightarrow> real" where
  "mean xs = sum_list xs / real (length xs)"

definition population_std :: "real list \<Rightarrow> real" where
  "population_std xs =
     sqrt (sum_list (map (\<lambda>x. (mean xs - x) * (mean xs - x)) xs) / real (length xs))"

section \<open>Calls of external data sources\<close>

text \<open>The events of a run that are calls of an external collaborator.\<close>

fun external_call :: "event \<Rightarrow> bool" where
  "external_call (Download t) = True"
| "external_call (Fetch f t) = True"
| "external_call (Read_rss t) = True"
| "external_call (Prophet_fit df n) = True"
| "external_call _ = False"

section \<open>Error signals\<close>

text \<open>
  The kinds of error of the specification, and the message of the dashboard that stands
  for each: the warning of the ticker guard, \<open>Invalid Ticker\<close> for an empty table from a
  data source, the two messages about columns, and the message of the forecast view for a
  training table without rows.
\<close>

datatype signal = EmptyTickerInput | EmptyInputError | MissingRequiredColumns | EmptyAfterCleaningError

fun signal_of :: "event \<Rightarrow> signal option" where
  "signal_of (Warning m) = (if m = ''Stock Ticker Empty'' then Some EmptyTickerInput else None)"
| "signal_of (Error m) =
     (if m = ''Invalid Ticker'' then Some EmptyInputError
      else if m = ''Prepared data for Prophet is empty after cleaning.'' then Some EmptyAfterCleaningError
      else if m = ''Data does not contain required columns for forecasting.'' then Some MissingRequiredColumns
      else if take 32 m = ''Missing columns after renaming: '' then Some MissingRequiredColumns
      else None)"
| "signal_of _ = None"

definition signals :: "event list \<Rightarrow> signal list" where
  "signals evs = List.map_filter signal_of evs"

section \<open>Example inputs\<close>

text \<open>
  An annual statement as the fundamentals client returns it: one row for each fiscal year,
  the period end in the first column, the currency in the second.  The third column holds
  the ticker that was asked for, so that the tables of two tickers differ.
\<close>

definition sample_statement :: "string \<Rightarrow> table" where
  "sample_statement t =
     \<lparr>tindex = [Num (Fin 0), Num (Fin 1)],
      tcolumns = [Txt ''fiscalDateEnding'', Txt ''reportedCurrency'', Txt ''symbol''],
      tvalues = (\<lambda>i j. if j = 0 then (if i = 0 then Txt ''2023-12-31'' else Txt ''2022-12-31'')
                        else if j = 1 then Txt ''USD'' else Txt t)\<rparr>"

definition sample_api :: "nat fundamental_data" where
  "sample_api =
     \<lparr>get_balance_sheet_annual = (\<lambda>fd. sample_statement),
      get_income_statement_annual = (\<lambda>fd. sample_statement),
      get_cash_flow_annual = (\<lambda>fd. sample_statement)\<rparr>"

definition no_stores :: "nat stores" where
  "no_stores = \<lparr>bs_store = Map.empty, ics_store = Map.empty, cf_store = Map.empty\<rparr>"

text \<open>
  Price tables.  \<open>bar d p c\<close> is the row of a table with the columns \<open>Date\<close>, \<open>Open\<close>
  and \<open>Close\<close>.  \<open>gappy_prices\<close> has one clean row, then a row with a NaN price, a row
  without a date and a row whose price is a text that is no number; \<open>unusable_prices\<close>
  has only rows of the latter kinds.  \<open>acme_prices\<close> are three clean trading days.
\<close>

definition bar :: "cell \<Rightarrow> cell \<Rightarrow> cell \<Rightarrow> row" where
  "bar d p c = (\<lambda>k. NA)(''Date'' := d, ''Open'' := p, ''Close'' := c)"

definition gappy_prices :: frame where
  "gappy_prices =
     \<lparr>columns = [''Date'', ''Open'', ''Close''],
      rows = [bar (Stamp 1) (Num (Fin 99)) (Num (Fin 100)),
              bar (Stamp 2) (Num (Fin 100)) (Num NaN),
              bar NA (Num (Fin 100)) (Num (Fin 110)),
              bar (Stamp 4) (Num (Fin 100)) (Txt ''n/a'')]\<rparr>"

definition unusable_prices :: frame where
  "unusable_prices =
     \<lparr>columns = [''Date'', ''Open'', ''Close''],
      rows = [bar (Stamp 2) (Num (Fin 100)) (Num NaN),
              bar (Stamp 4) (Num (Fin 100)) (Txt ''n/a'')]\<rparr>"

definition acme_prices :: frame where
  "acme_prices =
     \<lparr>columns = [''Date'', ''Open'', ''Close''],
      rows = [bar (Stamp 1) (Num (Fin 99)) (Num (Fin 100)),
              bar (Stamp 2) (Num (Fin 100)) (Num (Fin 110)),
              bar (Stamp 3) (Num (Fin 110)) (Num (Fin 99))]\<rparr>"

text \<open>
  \<open>open_gap_prices\<close>: three trading days with every closing price present, and no opening
  price on the second day.  \<open>one_day_prices\<close>: a single clean trading day.
\<close>

definition open_gap_prices :: frame where
  "open_gap_prices =
     \<lparr>columns = [''Date'', ''Open'', ''Close''],
      rows = [bar (Stamp 1) (Num (Fin 99)) (Num (Fin 100)),
              bar (Stamp 2) (Num NaN) (Num (Fin 110)),
              bar (Stamp 3) (Num (Fin 110)) (Num (Fin 99))]\<rparr>"

definition one_day_prices :: frame where
  "one_day_prices =
     \<lparr>columns = [''Date'', ''Open'', ''Close''],
      rows = [bar (Stamp 1) (Num (Fin 99)) (Num (Fin 100))]\<rparr>"

text \<open>The return series of the specification's example.\<close>

definition example_returns :: "real list" where
  "example_returns = [1 / 100, - (2 / 100), 15 / 1000, 0]"

section \<open>Properties of the statistics\<close>

lemma fsum_Fin_aux: "foldl fadd (Fin a) (map Fin xs) = Fin (a + sum_list xs)"
  by (induction xs arbitrary: a) (simp_all add: add.assoc)

lemma fsum_Fin: "fsum (map Fin xs) = Fin (sum_list xs)"
  by (simp add: fsum_def fsum_Fin_aux)

lemma skipna_Fin: "skipna (map Fin xs) = map Fin xs"
  by (induction xs) (simp_all add: skipna_def)

lemma series_mean_Fin: "xs \<noteq> [] \<Longrightarrow> series_mean (map Fin xs) = Fin (mean xs)"
  by (simp add: series_mean_def skipna_Fin fsum_Fin mean_def)

lemma sqr_Fin:
  "map (\<lambda>v. fmul (fsub (Fin m) v) (fsub (Fin m) v)) (map Fin xs)
     = map Fin (map (\<lambda>x. (m - x) * (m - x)) xs)"
  by (simp add: fsub_def)

lemma sum_sqr_nonneg: "0 \<le> sum_list (map (\<lambda>x. (m - x) * (m - x)) (xs :: real list))"
  by (induction xs) simp_all

lemma series_std_Fin: "xs \<noteq> [] \<Longrightarrow> series_std (map Fin xs) = Fin (population_std xs)"
proof -
  assume ne: "xs \<noteq> []"
  have nn: "\<not> sum_list (map (\<lambda>x. (mean xs - x) * (mean xs - x)) xs) / real (length xs) < 0"
    using sum_sqr_nonneg [of "mean xs" xs] by (simp add: not_less)
  show ?thesis
    using ne nn
    by (simp add: series_std_def skipna_Fin fsum_Fin sqr_Fin mean_def [symmetric]
        population_std_def del: map_map)
qed

lemma population_std_nonneg: "0 \<le> population_std xs"
  by (simp add: population_std_def sum_sqr_nonneg)

lemma annual_return_Fin:
  "xs \<noteq> [] \<Longrightarrow> annual_return (map Fin xs) = Fin (mean xs * 252 * 100)"
  by (simp add: annual_return_def series_mean_Fin)

lemma st_dev_Fin:
  "xs \<noteq> [] \<Longrightarrow> st_dev (map Fin xs) = Fin (population_std xs * sqrt 252)"
  by (simp add: st_dev_def series_std_Fin)

section \<open>Empty input\<close>

text \<open>
  C5.  When the market data source returns an empty table for a ticker that is not empty,
  the overview and the forecast view both show the message \<open>Invalid Ticker\<close> right after
  the download and stop: nothing is transformed, no metric is shown, nothing is fitted.
\<close>

theorem empty_input_invalid_ticker:
  assumes "ticker \<noteq> []" and "empty_frame (load_data ticker)"
  shows "current load_data ticker = [Download ticker, Error ''Invalid Ticker'']
       \<and> forecast load_data parse n_years ticker = [Download ticker, Error ''Invalid Ticker'']"
  using assms by (simp add: current_def forecast_def)

theorem empty_input_invalid_ticker_witness:
  "current (\<lambda>t. \<lparr>columns = [''Date'', ''Close''], rows = []\<rparr>) ''ACME''
     = [Download ''ACME'', Error ''Invalid Ticker'']
   \<and> forecast (\<lambda>t. \<lparr>columns = [''Date'', ''Close''], rows = []\<rparr>) (\<lambda>s. NaN) 1 ''ACME''
     = [Download ''ACME'', Error ''Invalid Ticker'']"
  using empty_input_invalid_ticker
    [where ticker = "''ACME''" and load_data = "\<lambda>t. \<lparr>columns = [''Date'', ''Close''], rows = []\<rparr>"
       and parse = "\<lambda>s. NaN" and n_years = 1]
  by (simp add: empty_frame_def)

section \<open>Accounting data: caching and the shape of the statements\<close>

lemma cached_again:
  "key_of fd2 = key_of fd1 \<Longrightarrow>
   cached key_of body (snd (cached key_of body store fd1 t1)) fd2 t2
     = ((case store (key_of fd1) of Some e \<Rightarrow> e | None \<Rightarrow> snd (body fd1 t1)),
        snd (cached key_of body store fd1 t1))"
  by (simp add: cached_def split: option.splits prod.splits)

lemma cached_value:
  "snd (fst (cached key_of body store fd1 t1))
     = snd (case store (key_of fd1) of Some e \<Rightarrow> e | None \<Rightarrow> snd (body fd1 t1))"
  by (simp add: cached_def split: option.splits prod.splits)

text \<open>
  C9 (as amended).  The key of a cached retriever holds neither the ticker nor the client
  handle: the handle is the argument \<open>_fd\<close>, which the framework does not hash.  So when
  the same retriever is called twice, the second call returns the value of the first
  call, also when the ticker has changed in between, and whether the client handle is
  the same or another one; starting with an empty store, that value is the table computed
  for the first ticker by the first client.
\<close>

theorem cached_retriever_ignores_handle_and_ticker:
  "snd (fst (get_balance_sheet unhashed api (snd (get_balance_sheet unhashed api store fd1 t1)) fd2 t2))
     = snd (fst (get_balance_sheet unhashed api store fd1 t1))
   \<and> snd (fst (get_income_statement unhashed api (snd (get_income_statement unhashed api store fd1 t1)) fd2 t2))
     = snd (fst (get_income_statement unhashed api store fd1 t1))
   \<and> snd (fst (get_cashflow_statement unhashed api (snd (get_cashflow_statement unhashed api store fd1 t1)) fd2 t2))
     = snd (fst (get_cashflow_statement unhashed api store fd1 t1))
   \<and> snd (fst (get_balance_sheet unhashed api (snd (get_balance_sheet unhashed api Map.empty fd1 t1)) fd2 t2))
     = snd (balance_sheet_of (get_balance_sheet_annual api fd1 t1))
   \<and> snd (fst (get_income_statement unhashed api (snd (get_income_statement unhashed api Map.empty fd1 t1)) fd2 t2))
     = snd (income_statement_of (get_income_statement_annual api fd1 t1))
   \<and> snd (fst (get_cashflow_statement unhashed api (snd (get_cashflow_statement unhashed api Map.empty fd1 t1)) fd2 t2))
     = snd (cashflow_statement_of (get_cash_flow_annual api fd1 t1))"
proof -
  have k: "unhashed fd2 = unhashed fd1" by (simp add: unhashed_def)
  show ?thesis
    by (simp add: get_balance_sheet_def get_income_statement_def get_cashflow_statement_def
        cached_again [where key_of = unhashed and ?fd1.0 = fd1 and ?fd2.0 = fd2, OF k]
        cached_value split: prod.splits)
qed

theorem cached_retriever_ignores_handle_and_ticker_witness:
  "map_option (\<lambda>r. tvalues r 0 0)
     (snd (fst (get_income_statement unhashed sample_api
                  (snd (get_income_statement unhashed sample_api Map.empty 7 ''AAPL'')) 8 ''MSFT'')))
     = Some (Txt ''AAPL'')
   \<and> map_option (\<lambda>r. tvalues r 0 0)
     (snd (fst (get_cashflow_statement unhashed sample_api
                  (snd (get_cashflow_statement unhashed sample_api Map.empty 7 ''AAPL'')) 7 ''MSFT'')))
     = Some (Txt ''AAPL'')"
proof -
  have ics: "snd (fst (get_income_statement unhashed sample_api
                  (snd (get_income_statement unhashed sample_api Map.empty 7 ''AAPL'')) 8 ''MSFT''))
              = snd (income_statement_of (get_income_statement_annual sample_api 7 ''AAPL''))"
    using cached_retriever_ignores_handle_and_ticker
      [where api = sample_api and ?fd1.0 = 7 and ?fd2.0 = 8 and ?t1.0 = "''AAPL''"
         and ?t2.0 = "''MSFT''" and store = Map.empty]
    by blast
  have cf: "snd (fst (get_cashflow_statement unhashed sample_api
                  (snd (get_cashflow_statement unhashed sample_api Map.empty 7 ''AAPL'')) 7 ''MSFT''))
              = snd (cashflow_statement_of (get_cash_flow_annual sample_api 7 ''AAPL''))"
    using cached_retriever_ignores_handle_and_ticker
      [where api = sample_api and ?fd1.0 = 7 and ?fd2.0 = 7 and ?t1.0 = "''AAPL''"
         and ?t2.0 = "''MSFT''" and store = Map.empty]
    by blast
  show ?thesis
    unfolding ics cf
    by (simp add: income_statement_of_def cashflow_statement_of_def sample_api_def
        sample_statement_def empty_table_def rows_from_def transposeT_def)
qed

text \<open>
  C9 as stated fails: the key is not the identity of the client handle.  With such a key
  a second client would get the table of the current ticker, \<open>MSFT\<close>; the retriever,
  whose key leaves the handle out, gives the second client the table of the first
  ticker, \<open>AAPL\<close>.
\<close>

theorem handle_key_counterexample:
  "map_option (\<lambda>r. tvalues r 0 0)
     (snd (fst (get_balance_sheet unhashed sample_api
                  (snd (get_balance_sheet unhashed sample_api Map.empty 7 ''AAPL'')) 8 ''MSFT'')))
     = Some (Txt ''AAPL'')
   \<and> map_option (\<lambda>r. tvalues r 0 0)
     (snd (fst (get_balance_sheet (\<lambda>fd. fd) sample_api
                  (snd (get_balance_sheet (\<lambda>fd. fd) sample_api Map.empty 7 ''AAPL'')) 8 ''MSFT'')))
     = Some (Txt ''MSFT'')"
  by (simp add: get_balance_sheet_def cached_def unhashed_def balance_sheet_of_def sample_api_def
      sample_statement_def empty_table_def rows_from_def transposeT_def)

text \<open>
  C8 (as amended).  For a source table that is not empty, the balance sheet and the cash
  flow retriever return the transpose without its first two rows, and its column labels
  are the first row of the transpose, that is the first column of the source table (the
  period ends), not the first row of the source table.  The income statement retriever
  returns the transpose without its first two rows; nothing is said about its labels.
\<close>

theorem statement_shape:
  assumes "\<not> empty_table t"
  shows "balance_sheet_of t =
           ([], Some \<lparr>tindex = drop 2 (tcolumns t),
                      tcolumns = map (\<lambda>i. tvalues t i 0) [0..<length (tindex t)],
                      tvalues = (\<lambda>i j. tvalues t j (i + 2))\<rparr>)
       \<and> cashflow_statement_of t =
           ([], Some \<lparr>tindex = drop 2 (tcolumns t),
                      tcolumns = map (\<lambda>i. tvalues t i 0) [0..<length (tindex t)],
                      tvalues = (\<lambda>i j. tvalues t j (i + 2))\<rparr>)
       \<and> (\<exists>labels. income_statement_of t =
           ([], Some \<lparr>tindex = drop 2 (tcolumns t), tcolumns = labels,
                      tvalues = (\<lambda>i j. tvalues t j (i + 2))\<rparr>))"
  using assms
  by (simp add: balance_sheet_of_def cashflow_statement_of_def income_statement_of_def
      rows_from_def transposeT_def iloc_row_def)

theorem statement_shape_witness:
  "map_option tindex (snd (balance_sheet_of (sample_statement ''ACME''))) = Some [Txt ''symbol'']
   \<and> map_option tcolumns (snd (cashflow_statement_of (sample_statement ''ACME'')))
       = Some [Txt ''2023-12-31'', Txt ''2022-12-31'']"
  using statement_shape [of "sample_statement ''ACME''"]
  by (simp add: sample_statement_def empty_table_def upt_rec)

text \<open>
  C8 as stated fails on the sample statement: the labels of the balance sheet are not the
  cells of the first row of the source table, and the income statement keeps the row
  numbers of the source table as its labels.
\<close>

theorem statement_labels_counterexample:
  "map_option tcolumns (snd (balance_sheet_of (sample_statement ''ACME'')))
     \<noteq> Some (iloc_row 0 (sample_statement ''ACME''))
   \<and> map_option tcolumns (snd (income_statement_of (sample_statement ''ACME'')))
     = Some [Num (Fin 0), Num (Fin 1)]"
  by (simp add: balance_sheet_of_def income_statement_of_def sample_statement_def
      empty_table_def rows_from_def transposeT_def iloc_row_def upt_rec)

section \<open>The empty-ticker guard\<close>

lemma cached_miss:
  "store (key_of fd) = None \<Longrightarrow>
   cached key_of body store fd t
     = ((fst (body fd t) @ fst (snd (body fd t)), snd (snd (body fd t))),
        store(key_of fd \<mapsto> snd (body fd t)))"
  by (simp add: cached_def split: prod.splits)

lemma fundamental_events:
  "ticker \<noteq> [] \<Longrightarrow>
   fst (fundamental key_of api fd st ticker) =
     Subheader ''Balance Sheet'' # fst (fst (get_balance_sheet key_of api (bs_store st) fd ticker))
       @ Write_table (snd (fst (get_balance_sheet key_of api (bs_store st) fd ticker)))
       # Subheader ''Income Statement'' # fst (fst (get_income_statement key_of api (ics_store st) fd ticker))
       @ Write_table (snd (fst (get_income_statement key_of api (ics_store st) fd ticker)))
       # Subheader ''Cash Flow Statement'' # fst (fst (get_cashflow_statement key_of api (cf_store st) fd ticker))
       @ [Write_table (snd (fst (get_cashflow_statement key_of api (cf_store st) fd ticker)))]"
  by (simp add: fundamental_def split: prod.splits)

lemma fundamental_stores:
  "ticker \<noteq> [] \<Longrightarrow>
   snd (fundamental key_of api fd st ticker) =
     \<lparr>bs_store = snd (get_balance_sheet key_of api (bs_store st) fd ticker),
      ics_store = snd (get_income_statement key_of api (ics_store st) fd ticker),
      cf_store = snd (get_cashflow_statement key_of api (cf_store st) fd ticker)\<rparr>"
  by (simp add: fundamental_def split: prod.splits)

text \<open>
  C10 (as amended).  Each of the four views shows the empty-ticker warning and stops
  exactly when the ticker is the empty string.  For any other ticker, a string of blanks
  included, the overview and the forecast view pass it to the market data source, the news
  view passes it to the news source, and the fundamentals view passes it to the
  fundamentals client for every statement whose store has no entry for the handle.
\<close>

theorem ticker_guard:
  "(current load_data ticker = [Warning ''Stock Ticker Empty'']) = (ticker = [])
   \<and> (forecast load_data parse n_years ticker = [Warning ''Stock Ticker Empty'']) = (ticker = [])
   \<and> (fst (fundamental key_of api fd st ticker) = [Warning ''Stock Ticker Empty'']) = (ticker = [])
   \<and> (news read_rss ticker = [Warning ''Stock Ticker Empty'']) = (ticker = [])
   \<and> (ticker \<noteq> [] \<longrightarrow>
        hd (current load_data ticker) = Download ticker
      \<and> hd (forecast load_data parse n_years ticker) = Download ticker
      \<and> take 2 (news read_rss ticker) = [Header (ticker @ '' News''), Read_rss ticker]
      \<and> (bs_store st (key_of fd) = None \<longrightarrow>
            Fetch ''balance_sheet_annual'' ticker \<in> set (fst (fundamental key_of api fd st ticker)))
      \<and> (ics_store st (key_of fd) = None \<longrightarrow>
            Fetch ''income_statement_annual'' ticker \<in> set (fst (fundamental key_of api fd st ticker)))
      \<and> (cf_store st (key_of fd) = None \<longrightarrow>
            Fetch ''cash_flow_annual'' ticker \<in> set (fst (fundamental key_of api fd st ticker))))"
proof -
  have g1: "(current load_data ticker = [Warning ''Stock Ticker Empty'']) = (ticker = [])"
    by (simp add: current_def Let_def)
  have g2: "(forecast load_data parse n_years ticker = [Warning ''Stock Ticker Empty'']) = (ticker = [])"
    by (simp add: forecast_def Let_def)
  have g3: "(fst (fundamental key_of api fd st ticker) = [Warning ''Stock Ticker Empty'']) = (ticker = [])"
    by (cases "ticker = []") (simp_all add: fundamental_events, simp add: fundamental_def)
  have g4: "(news read_rss ticker = [Warning ''Stock Ticker Empty'']) = (ticker = [])"
    by (simp add: news_def Let_def)
  have f: "hd (current load_data ticker) = Download ticker
      \<and> hd (forecast load_data parse n_years ticker) = Download ticker
      \<and> take 2 (news read_rss ticker) = [Header (ticker @ '' News''), Read_rss ticker]
      \<and> (bs_store st (key_of fd) = None \<longrightarrow>
            Fetch ''balance_sheet_annual'' ticker \<in> set (fst (fundamental key_of api fd st ticker)))
      \<and> (ics_store st (key_of fd) = None \<longrightarrow>
            Fetch ''income_statement_annual'' ticker \<in> set (fst (fundamental key_of api fd st ticker)))
      \<and> (cf_store st (key_of fd) = None \<longrightarrow>
            Fetch ''cash_flow_annual'' ticker \<in> set (fst (fundamental key_of api fd st ticker)))"
    if ne: "ticker \<noteq> []"
  proof -
    have a: "hd (current load_data ticker) = Download ticker"
      using ne by (simp add: current_def Let_def)
    have b: "hd (forecast load_data parse n_years ticker) = Download ticker"
      using ne by (simp add: forecast_def Let_def)
    have c: "take 2 (news read_rss ticker) = [Header (ticker @ '' News''), Read_rss ticker]"
      using ne by (simp add: news_def Let_def)
    have d: "Fetch ''balance_sheet_annual'' ticker \<in> set (fst (fundamental key_of api fd st ticker))"
      if "bs_store st (key_of fd) = None"
      using ne that
      by (simp add: fundamental_events get_balance_sheet_def cached_miss split: prod.splits)
    have e: "Fetch ''income_statement_annual'' ticker \<in> set (fst (fundamental key_of api fd st ticker))"
      if "ics_store st (key_of fd) = None"
      using ne that
      by (simp add: fundamental_events get_income_statement_def cached_miss split: prod.splits)
    have f: "Fetch ''cash_flow_annual'' ticker \<in> set (fst (fundamental key_of api fd st ticker))"
      if "cf_store st (key_of fd) = None"
      using ne that
      by (simp add: fundamental_events get_cashflow_statement_def cached_miss split: prod.splits)
    from a b c d e f show ?thesis by blast
  qed
  from g1 g2 g3 g4 f show ?thesis by blast
qed

theorem ticker_guard_witness:
  "current (\<lambda>t. \<lparr>columns = [], rows = []\<rparr>) '' '' \<noteq> [Warning ''Stock Ticker Empty'']
   \<and> hd (current (\<lambda>t. \<lparr>columns = [], rows = []\<rparr>) '' '') = Download '' ''
   \<and> take 2 (news (\<lambda>t. []) '' '') = [Header (''  News''), Read_rss '' '']
   \<and> Fetch ''balance_sheet_annual'' '' ''
        \<in> set (fst (fundamental (\<lambda>fd. fd) sample_api 7 no_stores '' ''))"
  using ticker_guard
    [where ticker = "'' ''" and load_data = "\<lambda>t. \<lparr>columns = [], rows = []\<rparr>"
       and read_rss = "\<lambda>t. []" and key_of = "\<lambda>fd. fd" and api = sample_api and fd = 7
       and st = no_stores]
  by (simp add: no_stores_def)

text \<open>
  C10 as stated fails for the fundamentals view.  The first run fetches the three
  statements for its ticker.  In a second run the ticker of one blank passes the guard,
  and no external data source is called at all: neither when the key leaves the handle
  out (an argument whose name starts with an underscore is not hashed) and the second run
  has a client of its own, nor when the key is the handle and both runs have the same one.
\<close>

theorem warm_cache_counterexample:
  "filter external_call (fst (fundamental (\<lambda>fd. 0) sample_api 7 no_stores ''AAPL''))
     = [Fetch ''balance_sheet_annual'' ''AAPL'', Fetch ''income_statement_annual'' ''AAPL'',
        Fetch ''cash_flow_annual'' ''AAPL'']
   \<and> filter external_call
     (fst (fundamental (\<lambda>fd. 0) sample_api 8
             (snd (fundamental (\<lambda>fd. 0) sample_api 7 no_stores ''AAPL'')) '' '')) = []
   \<and> filter external_call
     (fst (fundamental (\<lambda>fd. fd) sample_api 7
             (snd (fundamental (\<lambda>fd. fd) sample_api 7 no_stores ''AAPL'')) '' '')) = []"
  by (simp add: fundamental_events fundamental_stores no_stores_def get_balance_sheet_def
      get_income_statement_def get_cashflow_statement_def cached_def sample_api_def
      balance_sheet_of_def income_statement_of_def cashflow_statement_of_def
      sample_statement_def empty_table_def)

section \<open>The training table of the forecast\<close>

lemma to_numeric_Num: "\<exists>v. to_numeric parse c = Num v"
  by (cases c) simp_all

lemma clean_train_rows:
  assumes "r \<in> set (rows (clean_train parse df))"
  shows "\<not> isna (r ''ds'') \<and> (\<exists>v. r ''y'' = Num v \<and> v \<noteq> NaN)"
proof -
  from assms obtain r0 where r0: "r0 \<in> set (rows df)" "\<not> isna (r0 ''ds'')"
    and r: "r = r0(''y'' := to_numeric parse (r0 ''y''))" and y: "\<not> isna (r ''y'')"
    by (auto simp: clean_train_def dropna_subset_def Let_def)
  obtain v where v: "to_numeric parse (r0 ''y'') = Num v"
    using to_numeric_Num by blast
  from r v y have "r ''y'' = Num v \<and> v \<noteq> NaN" by (simp add: isna_def)
  moreover from r r0 have "\<not> isna (r ''ds'')" by simp
  ultimately show ?thesis by blast
qed

lemma forecast_cleaned:
  assumes "ticker \<noteq> []" and "\<not> empty_frame (load_data ticker)"
    and "forecast_col (load_data ticker) = Some pc"
    and "''Date'' \<in> set (columns (load_data ticker))"
  shows "forecast load_data parse n_years ticker =
           Download ticker #
           (if rows (forecast_input parse pc (load_data ticker)) = []
            then [Error ''Prepared data for Prophet is empty after cleaning.'',
                  Write_frame (head5 (forecast_input parse pc (load_data ticker)))]
            else if length (rows (forecast_input parse pc (load_data ticker))) < 2
            then [Prophet_fit (forecast_input parse pc (load_data ticker)) (n_years * 365),
                  Raise (ValueError ''Dataframe has less than 2 non-NaN rows.'')]
            else [Prophet_fit (forecast_input parse pc (load_data ticker)) (n_years * 365),
                  Subheader ''Forecast Chart'', Forecast_chart,
                  Subheader ''Forecast Components'', Forecast_components,
                  Subheader ''Forecast Analysis'', Forecast_table])"
proof -
  have cols: "columns (clean_train parse (select_rename pc (load_data ticker))) = [''ds'', ''y'']"
    by (simp add: clean_train_def dropna_subset_def select_rename_def Let_def)
  have e: "empty_frame (clean_train parse (select_rename pc (load_data ticker)))
             = (rows (forecast_input parse pc (load_data ticker)) = [])"
    by (simp add: empty_frame_def cols forecast_input_def)
  have m: "columns (select_rename pc (load_data ticker)) = [''ds'', ''y'']"
    by (simp add: select_rename_def)
  show ?thesis
    using assms by (simp add: forecast_def Let_def m e) (simp add: forecast_input_def)
qed

text \<open>
  C6.  When the downloaded table is not empty and has the columns the forecast needs, no
  row of the cleaned training table has a missing timestamp, and the value of every row is
  a number that is not NaN.  If the cleaned table has no row, the view shows the message
  that the prepared data is empty and stops; the forecasting library is called only with a
  cleaned table that has rows.
\<close>

theorem forecast_input_clean:
  assumes "ticker \<noteq> []" and "\<not> empty_frame (load_data ticker)"
    and "forecast_col (load_data ticker) = Some pc"
    and "''Date'' \<in> set (columns (load_data ticker))"
  shows "(\<forall>r \<in> set (rows (forecast_input parse pc (load_data ticker))).
            \<not> isna (r ''ds'') \<and> (\<exists>v. r ''y'' = Num v \<and> v \<noteq> NaN))
       \<and> (rows (forecast_input parse pc (load_data ticker)) = [] \<longrightarrow>
            forecast load_data parse n_years ticker =
              [Download ticker, Error ''Prepared data for Prophet is empty after cleaning.'',
               Write_frame (head5 (forecast_input parse pc (load_data ticker)))])
       \<and> (rows (forecast_input parse pc (load_data ticker)) \<noteq> [] \<longrightarrow>
            filter external_call (forecast load_data parse n_years ticker) =
              [Download ticker,
               Prophet_fit (forecast_input parse pc (load_data ticker)) (n_years * 365)])"
proof -
  have a: "\<forall>r \<in> set (rows (forecast_input parse pc (load_data ticker))).
            \<not> isna (r ''ds'') \<and> (\<exists>v. r ''y'' = Num v \<and> v \<noteq> NaN)"
    using clean_train_rows by (simp add: forecast_input_def)
  note f = forecast_cleaned
    [where ticker = ticker and load_data = load_data and pc = pc and parse = parse
       and n_years = n_years, OF assms]
  show ?thesis using a by (simp add: f)
qed

theorem forecast_input_clean_witness:
  "map (\<lambda>r. (r ''ds'', r ''y'')) (rows (forecast_input (\<lambda>s. NaN) ''Close'' gappy_prices))
     = [(Stamp 1, Num (Fin 100))]
   \<and> filter external_call (forecast (\<lambda>t. gappy_prices) (\<lambda>s. NaN) 1 ''ACME'')
     = [Download ''ACME'', Prophet_fit (forecast_input (\<lambda>s. NaN) ''Close'' gappy_prices) 365]
   \<and> forecast (\<lambda>t. unusable_prices) (\<lambda>s. NaN) 1 ''ACME''
     = [Download ''ACME'', Error ''Prepared data for Prophet is empty after cleaning.'',
        Write_frame (head5 (forecast_input (\<lambda>s. NaN) ''Close'' unusable_prices))]"
proof -
  have g: "map (\<lambda>r. (r ''ds'', r ''y'')) (rows (forecast_input (\<lambda>s. NaN) ''Close'' gappy_prices))
             = [(Stamp 1, Num (Fin 100))]"
    by (simp add: gappy_prices_def forecast_input_def clean_train_def select_rename_def
        dropna_subset_def bar_def isna_def Let_def)
  have u: "rows (forecast_input (\<lambda>s. NaN) ''Close'' unusable_prices) = []"
    by (simp add: unusable_prices_def forecast_input_def clean_train_def select_rename_def
        dropna_subset_def bar_def isna_def Let_def)
  have g': "rows (forecast_input (\<lambda>s. NaN) ''Close'' gappy_prices) \<noteq> []"
    using g by auto
  have 1: "filter external_call (forecast (\<lambda>t. gappy_prices) (\<lambda>s. NaN) 1 ''ACME'')
     = [Download ''ACME'', Prophet_fit (forecast_input (\<lambda>s. NaN) ''Close'' gappy_prices) 365]"
    using g' forecast_input_clean
      [where ticker = "''ACME''" and load_data = "\<lambda>t. gappy_prices" and pc = "''Close''"
         and parse = "\<lambda>s. NaN" and n_years = 1]
    by (simp add: gappy_prices_def empty_frame_def forecast_col_def)
  have 2: "forecast (\<lambda>t. unusable_prices) (\<lambda>s. NaN) 1 ''ACME''
     = [Download ''ACME'', Error ''Prepared data for Prophet is empty after cleaning.'',
        Write_frame (head5 (forecast_input (\<lambda>s. NaN) ''Close'' unusable_prices))]"
    using u forecast_input_clean
      [where ticker = "''ACME''" and load_data = "\<lambda>t. unusable_prices" and pc = "''Close''"
         and parse = "\<lambda>s. NaN" and n_years = 1]
    by (simp add: unusable_prices_def empty_frame_def forecast_col_def)
  from g 1 2 show ?thesis by blast
qed

section \<open>The return series of the overview\<close>

lemma floats_Num: "floats (map Num vs) = Inr vs"
  by (induction vs) simp_all

lemma collect_Inr: "collect (map Inr xs) = Inr xs"
  by (induction xs) simp_all

lemma cell_div_NaN: "cell_div c (Num NaN) = Inr NaN"
  by (simp add: cell_div_def isna_def)

lemma cell_div_Fin:
  "length ps = length qs \<Longrightarrow> 0 \<notin> set qs \<Longrightarrow>
   map2 cell_div (map (\<lambda>p. Num (Fin p)) ps) (map (\<lambda>p. Num (Fin p)) qs)
     = map Inr (map Fin (map2 (\<lambda>p q. p / q) ps qs))"
  by (induction ps qs rule: list_induct2) (simp_all add: cell_div_def isna_def)

lemma minus_one_Fin:
  "length ps = length qs \<Longrightarrow>
   map (\<lambda>q. fsub q (Fin 1)) (map Fin (map2 (\<lambda>p q. p / q) ps qs))
     = map Fin (map2 (\<lambda>p q. p / q - 1) ps qs)"
  by (induction ps qs rule: list_induct2) (simp_all add: fsub_def)

lemma pct_change_Fin:
  assumes "0 \<notin> set (p # ps)"
  shows "pct_change (map (\<lambda>p. Num (Fin p)) (p # ps))
           = Inr (NaN # map Fin (map2 (\<lambda>a b. a / b - 1) ps (butlast (p # ps))))"
proof -
  have l: "length ps = length (butlast (p # ps))" by simp
  have z: "0 \<notin> set (butlast (p # ps))"
    using assms by (meson in_set_butlastD)
  have "map2 cell_div (map (\<lambda>p. Num (Fin p)) (p # ps)) (shift1 (map (\<lambda>p. Num (Fin p)) (p # ps)))
          = Inr NaN # map2 cell_div (map (\<lambda>p. Num (Fin p)) ps)
                        (map (\<lambda>p. Num (Fin p)) (butlast (p # ps)))"
    by (simp add: shift1_def map_butlast cell_div_NaN del: butlast.simps)
  also have "\<dots> = map Inr (NaN # map Fin (map2 (\<lambda>p q. p / q) ps (butlast (p # ps))))"
    using cell_div_Fin [OF l z] by simp
  finally have "collect (map2 cell_div (map (\<lambda>p. Num (Fin p)) (p # ps))
                           (shift1 (map (\<lambda>p. Num (Fin p)) (p # ps))))
                  = Inr (NaN # map Fin (map2 (\<lambda>p q. p / q) ps (butlast (p # ps))))"
    by (simp only: collect_Inr)
  then show ?thesis
    using minus_one_Fin [OF l] by (simp add: pct_change_def fsub_def del: butlast.simps)
qed

lemma setcol_columns: "''% Change'' \<in> set (columns (setcol ''% Change'' vs df))"
  by (simp add: setcol_def)

lemma setcol_columns_subset:
  "c \<in> set (columns (setcol k vs df)) \<Longrightarrow> c = k \<or> c \<in> set (columns df)"
  by (simp add: setcol_def split: if_splits)

lemma returns_mode_Fin:
  assumes pc: "price_col data \<in> set (columns data)"
    and prices: "map (\<lambda>r. r (price_col data)) (rows data) = map (\<lambda>p. Num (Fin p)) (p # ps)"
    and nz: "0 \<notin> set (p # ps)"
  shows "returns_mode data
           = Inr (dropna (setcol ''% Change''
                    (map Num (NaN # map Fin (map2 (\<lambda>a b. a / b - 1) ps (butlast (p # ps))))) data))"
proof -
  have "getcol (price_col data) data = Inr (map (\<lambda>p. Num (Fin p)) (p # ps))"
    using pc by (simp only: getcol_def prices if_True)
  then show ?thesis
    by (simp only: returns_mode_def pct_change_Fin [OF nz] sum.case)
qed

text \<open>
  C1 (as amended).  Take a price table that is not empty, has its price column
  (\<open>Adj Close\<close> when present, else \<open>Close\<close>), has a finite price other than zero in every
  row, and has no missing cell in any column at all.  Then the \<open>returns\<close> preparation
  yields one row less than the table has: the row at index \<open>i + 1\<close> of the table, with the
  new cell \<open>% Change\<close> equal to \<open>price[i+1] / price[i] - 1\<close>; the row at index 0 is dropped.
\<close>

theorem returns_rows:
  assumes ne: "rows data \<noteq> []"
    and pc: "price_col data \<in> set (columns data)"
    and prices: "map (\<lambda>r. r (price_col data)) (rows data) = map (\<lambda>p. Num (Fin p)) ps"
    and nz: "0 \<notin> set ps"
    and clean: "\<forall>r \<in> set (rows data). \<forall>c \<in> set (columns data). \<not> isna (r c)"
  shows "\<exists>out. returns_mode data = Inr out
           \<and> length (rows out) = length (rows data) - 1
           \<and> (\<forall>i < length (rows data) - 1.
                 rows out ! i
                   = (rows data ! Suc i)(''% Change'' := Num (Fin (ps ! Suc i / ps ! i - 1))))"
proof -
  from ne obtain r0 rs where rows: "rows data = r0 # rs" by (cases "rows data") auto
  have len: "length ps = length (rows data)"
    using arg_cong [OF prices, of length] by simp
  with rows obtain p0 ps' where ps: "ps = p0 # ps'" by (cases ps) auto
  define qs where "qs = map2 (\<lambda>a b. a / b - 1) ps' (butlast (p0 # ps'))"
  have lq: "length qs = length rs" using len rows ps by (auto simp: qs_def)
  define df where "df = setcol ''% Change'' (map Num (NaN # map Fin qs)) data"
  define upd where "upd = (\<lambda>(r :: row) v. r(''% Change'' := v))"
  have out: "returns_mode data = Inr (dropna df)"
    using returns_mode_Fin [OF pc prices [unfolded ps] nz [unfolded ps]]
    by (simp only: df_def qs_def)
  have dfrows: "rows df = upd r0 (Num NaN) # map2 upd rs (map (\<lambda>q. Num (Fin q)) qs)"
    by (simp add: df_def setcol_def rows upd_def comp_def)
  have drop0: "\<not> list_all (\<lambda>c. \<not> isna (upd r0 (Num NaN) c)) (columns df)"
    using setcol_columns [of "map Num (NaN # map Fin qs)" data]
    by (auto simp: list_all_iff df_def upd_def isna_def)
  have keep: "list_all (\<lambda>c. \<not> isna (r c)) (columns df)"
    if "r \<in> set (map2 upd rs (map (\<lambda>q. Num (Fin q)) qs))" for r
  proof -
    from that obtain r' v where z: "(r', v) \<in> set (zip rs (map (\<lambda>q. Num (Fin q)) qs))"
      and rv: "r = upd r' v" by auto
    from z have r': "r' \<in> set rs" by (rule set_zip_leftD)
    from z have "v \<in> set (map (\<lambda>q. Num (Fin q)) qs)" by (rule set_zip_rightD)
    then obtain q where "v = Num (Fin q)" by auto
    with rv have r: "r = upd r' (Num (Fin q))" by simp
    have "\<not> isna (r c)" if "c \<in> set (columns df)" for c
    proof (cases "c = ''% Change''")
      case True
      then show ?thesis by (simp add: r upd_def isna_def)
    next
      case False
      with that have "c \<in> set (columns data)"
        using setcol_columns_subset by (fastforce simp: df_def)
      with r' rows clean have "\<not> isna (r' c)" by simp
      with False show ?thesis by (simp add: r upd_def)
    qed
    then show ?thesis by (simp add: list_all_iff)
  qed
  have res: "rows (dropna df) = map2 upd rs (map (\<lambda>q. Num (Fin q)) qs)"
    using drop0 keep by (simp add: dropna_def dropna_subset_def dfrows filter_id_conv)
  have l: "length (rows (dropna df)) = length (rows data) - 1"
    by (simp add: res rows lq)
  have n: "rows (dropna df) ! i
             = (rows data ! Suc i)(''% Change'' := Num (Fin (ps ! Suc i / ps ! i - 1)))"
    if "i < length (rows data) - 1" for i
  proof -
    from that have i: "i < length rs" by (simp add: rows)
    with len rows ps have i': "i < length ps'" by simp
    have lb: "length (butlast (p0 # ps')) = length ps'" by simp
    have "qs ! i = ps' ! i / butlast (p0 # ps') ! i - 1"
      unfolding qs_def using i' lb by (simp del: butlast.simps)
    also have "butlast (p0 # ps') ! i = (p0 # ps') ! i"
      using i' lb by (simp add: nth_butlast del: butlast.simps)
    finally have q: "qs ! i = ps ! Suc i / ps ! i - 1" by (simp add: ps)
    show ?thesis using i lq by (simp add: res rows upd_def q)
  qed
  from out l n show ?thesis by blast
qed


lemma list_len2: "length xs = 2 \<Longrightarrow> \<exists>a b. xs = [a, b]"
  by (cases xs; cases "tl xs") auto

theorem returns_rows_witness:
  "map_sum id (\<lambda>df. map (\<lambda>r. (r ''Date'', r ''% Change'')) (rows df)) (returns_mode acme_prices)
     = Inr [(Stamp 2, Num (Fin (1 / 10))), (Stamp 3, Num (Fin (- (1 / 10))))]"
proof -
  have pc: "price_col acme_prices \<in> set (columns acme_prices)"
    by (simp add: acme_prices_def price_col_def)
  have pr: "map (\<lambda>r. r (price_col acme_prices)) (rows acme_prices)
              = map (\<lambda>p. Num (Fin p)) [100, 110, 99]"
    by (simp add: acme_prices_def price_col_def bar_def)
  have cl: "\<forall>r \<in> set (rows acme_prices). \<forall>c \<in> set (columns acme_prices). \<not> isna (r c)"
    by (simp add: acme_prices_def bar_def isna_def)
  have ne: "rows acme_prices \<noteq> []" by (simp add: acme_prices_def)
  have nz: "(0::real) \<notin> set [100, 110, 99]" by simp
  from returns_rows [OF ne pc pr nz cl]
  obtain out where out: "returns_mode acme_prices = Inr out"
    and len: "length (rows out) = length (rows acme_prices) - 1"
    and nth: "\<And>i. i < length (rows acme_prices) - 1 \<Longrightarrow> rows out ! i
                   = (rows acme_prices ! Suc i)
                       (''% Change'' := Num (Fin ([100, 110, 99] ! Suc i / [100, 110, 99] ! i - 1)))"
    by blast
  have l3: "length (rows acme_prices) - 1 = 2" by (simp add: acme_prices_def)
  from len l3 obtain a b where ab: "rows out = [a, b]"
    using list_len2 [of "rows out"] by auto
  have a: "a = (bar (Stamp 2) (Num (Fin 100)) (Num (Fin 110)))(''% Change'' := Num (Fin (1 / 10)))"
    using nth [of 0] l3 by (simp add: ab acme_prices_def)
  have b: "b = (bar (Stamp 3) (Num (Fin 110)) (Num (Fin 99)))(''% Change'' := Num (Fin (- (1 / 10))))"
    using nth [of 1] l3 by (simp add: ab acme_prices_def)
  show ?thesis by (simp add: out ab a b bar_def)
qed



text \<open>
  C1 as stated fails when a column other than the price column has a gap: \<open>dropna\<close> looks
  at every column.  In \<open>open_gap_prices\<close> every closing price is present and not zero,
  the table has three rows, and only one row is left.
\<close>

theorem returns_gap_counterexample:
  "map (\<lambda>r. r ''Close'') (rows open_gap_prices) = [Num (Fin 100), Num (Fin 110), Num (Fin 99)]
   \<and> price_col open_gap_prices = ''Close''
   \<and> map_sum id (\<lambda>df. map (\<lambda>r. (r ''Date'', r ''% Change'')) (rows df)) (returns_mode open_gap_prices)
       = Inr [(Stamp 3, Num (Fin (- (1 / 10))))]"
proof -
  have c: "map (\<lambda>r. r ''Close'') (rows open_gap_prices) = [Num (Fin 100), Num (Fin 110), Num (Fin 99)]"
    by (simp add: open_gap_prices_def bar_def)
  have p: "price_col open_gap_prices = ''Close''"
    by (simp add: open_gap_prices_def price_col_def)
  have g: "getcol ''Close'' open_gap_prices = Inr [Num (Fin 100), Num (Fin 110), Num (Fin 99)]"
    by (simp add: getcol_def c) (simp add: open_gap_prices_def)
  have pct: "pct_change [Num (Fin 100), Num (Fin 110), Num (Fin 99)]
               = Inr [NaN, Fin (1 / 10), Fin (- (1 / 10))]"
    by (simp add: pct_change_def shift1_def cell_div_def isna_def fsub_def)
  have r: "returns_mode open_gap_prices
             = Inr (dropna (setcol ''% Change'' [Num NaN, Num (Fin (1 / 10)), Num (Fin (- (1 / 10)))]
                      open_gap_prices))"
    by (simp add: returns_mode_def p g pct)
  have d: "map (\<lambda>r. (r ''Date'', r ''% Change''))
             (rows (dropna (setcol ''% Change'' [Num NaN, Num (Fin (1 / 10)), Num (Fin (- (1 / 10)))]
                      open_gap_prices)))
           = [(Stamp 3, Num (Fin (- (1 / 10))))]"
    by (simp add: dropna_def dropna_subset_def setcol_def open_gap_prices_def bar_def isna_def)
  show ?thesis by (simp add: c p r d)
qed

section \<open>A price table of one row\<close>

lemma pct_change_single: "pct_change [c] = Inr [NaN]"
  by (simp add: pct_change_def shift1_def cell_div_NaN fsub_def)

lemma dropna_NaN_row:
  "rows df = [r] \<Longrightarrow> rows (dropna (setcol ''% Change'' [Num NaN] df)) = []"
  by (auto simp: dropna_def dropna_subset_def setcol_def list_all_iff isna_def)

lemma returns_mode_one_row:
  assumes r: "rows data = [r]" and c: "''Close'' \<in> set (columns data)"
  shows "returns_mode data = Inr (dropna (setcol ''% Change'' [Num NaN] data))"
proof -
  have "price_col data \<in> set (columns data)"
    using c by (simp add: price_col_def)
  then have "getcol (price_col data) data = Inr [r (price_col data)]"
    by (simp add: getcol_def r)
  then show ?thesis
    by (simp add: returns_mode_def pct_change_single)
qed

lemma metrics_Nil:
  "metrics [] = [Metric ''Annual Return'' NaN ''%'', Metric ''Standard Deviation'' NaN ''%'',
                 Metric ''Risk Adjusted Return'' NaN ''%'']"
  by (simp add: metrics_def annual_return_def st_dev_def risk_adjusted_def risk_ratio_def
      series_mean_def series_std_def skipna_def)

lemma get_metrics_no_row:
  assumes "rows df = []" and "''% Change'' \<in> set (columns df)"
  shows "get_metrics df = metrics []"
  using assms by (simp add: get_metrics_def getcol_def)

lemma plot_one_row:
  assumes r: "rows data = [r]"
    and d: "''Date'' \<in> set (columns data)"
    and p: "''Open'' \<in> set (columns data)"
    and c: "''Close'' \<in> set (columns data)"
  shows "\<exists>name adj. plot_ticker_data data
           = Inr (Chart [r ''Date''] [(''Stock Open'', [r ''Open'']), (''Stock Close'', [r ''Close'']),
                                      (name, adj)])"
  using assms by (simp add: plot_ticker_data_def getcol_def)

text \<open>
  C4.  The overview has no test of the table after \<open>dropna\<close>; the forecast view has one.
  Take a price table of exactly one row that has the columns \<open>Date\<close>, \<open>Open\<close> and
  \<open>Close\<close>, and a ticker that is not empty.  The table passes the guard for an empty
  download, the chart is drawn, and the \<open>returns\<close> preparation leaves no row, as the only
  percent change is undefined.  The view then signals no error of any kind: it writes the
  table without rows and goes on to \<open>get_metrics\<close>, which shows three metrics, each of them
  NaN.
\<close>

theorem one_row_overview:
  assumes r: "rows data = [r]"
    and d: "''Date'' \<in> set (columns data)"
    and p: "''Open'' \<in> set (columns data)"
    and c: "''Close'' \<in> set (columns data)"
    and t: "ticker \<noteq> []"
  shows "\<exists>chart. plot_ticker_data data = Inr chart
         \<and> returns_mode data = Inr (dropna (setcol ''% Change'' [Num NaN] data))
         \<and> rows (dropna (setcol ''% Change'' [Num NaN] data)) = []
         \<and> current (\<lambda>t. data) ticker
             = [Download ticker, Subheader ''Time Series Chart'', chart,
                Subheader ''Stock Analysis'',
                Write_frame (dropna (setcol ''% Change'' [Num NaN] data)), Divider,
                Metric ''Annual Return'' NaN ''%'', Metric ''Standard Deviation'' NaN ''%'',
                Metric ''Risk Adjusted Return'' NaN ''%'']
         \<and> signals (current (\<lambda>t. data) ticker) = []"
proof -
  from plot_one_row [OF r d p c] obtain name adj
    where pl: "plot_ticker_data data
                 = Inr (Chart [r ''Date''] [(''Stock Open'', [r ''Open'']),
                                            (''Stock Close'', [r ''Close'']), (name, adj)])"
    by blast
  define chart where
    "chart = Chart [r ''Date''] [(''Stock Open'', [r ''Open'']), (''Stock Close'', [r ''Close'']),
                                 (name, adj)]"
  define out where "out = dropna (setcol ''% Change'' [Num NaN] data)"
  have pl': "plot_ticker_data data = Inr chart"
    by (simp only: pl chart_def)
  have e: "\<not> empty_frame data"
    using r d by (auto simp: empty_frame_def)
  have rm: "returns_mode data = Inr out"
    unfolding out_def using r c by (rule returns_mode_one_row)
  have no: "rows out = []"
    unfolding out_def using r by (rule dropna_NaN_row)
  have col: "''% Change'' \<in> set (columns out)"
    by (simp add: out_def dropna_def dropna_subset_def setcol_def)
  have m: "get_metrics out = metrics []"
    using no col by (rule get_metrics_no_row)
  have cur: "current (\<lambda>t. data) ticker
               = [Download ticker, Subheader ''Time Series Chart'', chart,
                  Subheader ''Stock Analysis'', Write_frame out, Divider,
                  Metric ''Annual Return'' NaN ''%'', Metric ''Standard Deviation'' NaN ''%'',
                  Metric ''Risk Adjusted Return'' NaN ''%'']"
    using t by (simp add: current_def e pl' rm m metrics_Nil)
  have sg: "signals (current (\<lambda>t. data) ticker) = []"
    unfolding cur by (simp add: signals_def List.map_filter_simps chart_def)
  from pl' rm no cur sg show ?thesis
    unfolding out_def by blast
qed

theorem one_row_overview_witness:
  "current (\<lambda>t. one_day_prices) ''ACME'' =
     [Download ''ACME'', Subheader ''Time Series Chart'',
      Chart [Stamp 1] [(''Stock Open'', [Num (Fin 99)]), (''Stock Close'', [Num (Fin 100)]),
                       (''Adj. Close (using Close)'', [Num (Fin 100)])],
      Subheader ''Stock Analysis'',
      Write_frame (dropna (setcol ''% Change'' [Num NaN] one_day_prices)), Divider,
      Metric ''Annual Return'' NaN ''%'', Metric ''Standard Deviation'' NaN ''%'',
      Metric ''Risk Adjusted Return'' NaN ''%'']
   \<and> map_sum id rows (returns_mode one_day_prices) = Inr []
   \<and> signals (current (\<lambda>t. one_day_prices) ''ACME'') = []"
proof -
  have r: "rows one_day_prices = [bar (Stamp 1) (Num (Fin 99)) (Num (Fin 100))]"
    by (simp add: one_day_prices_def)
  have d: "''Date'' \<in> set (columns one_day_prices)"
    and p: "''Open'' \<in> set (columns one_day_prices)"
    and c: "''Close'' \<in> set (columns one_day_prices)"
    by (simp_all add: one_day_prices_def)
  have t: "''ACME'' \<noteq> []" by simp
  from one_row_overview [OF r d p c t] obtain chart
    where pl: "plot_ticker_data one_day_prices = Inr chart"
      and rm: "returns_mode one_day_prices
                 = Inr (dropna (setcol ''% Change'' [Num NaN] one_day_prices))"
      and no: "rows (dropna (setcol ''% Change'' [Num NaN] one_day_prices)) = []"
      and cur: "current (\<lambda>t. one_day_prices) ''ACME''
                  = [Download ''ACME'', Subheader ''Time Series Chart'', chart,
                     Subheader ''Stock Analysis'',
                     Write_frame (dropna (setcol ''% Change'' [Num NaN] one_day_prices)), Divider,
                     Metric ''Annual Return'' NaN ''%'', Metric ''Standard Deviation'' NaN ''%'',
                     Metric ''Risk Adjusted Return'' NaN ''%'']"
      and sg: "signals (current (\<lambda>t. one_day_prices) ''ACME'') = []"
    by blast
  have "plot_ticker_data one_day_prices =
          Inr (Chart [Stamp 1] [(''Stock Open'', [Num (Fin 99)]), (''Stock Close'', [Num (Fin 100)]),
                                (''Adj. Close (using Close)'', [Num (Fin 100)])])"
    by (simp add: plot_ticker_data_def getcol_def one_day_prices_def bar_def)
  with pl have ch: "chart = Chart [Stamp 1] [(''Stock Open'', [Num (Fin 99)]),
                                             (''Stock Close'', [Num (Fin 100)]),
                                             (''Adj. Close (using Close)'', [Num (Fin 100)])]"
    by simp
  have a: "map_sum id rows (returns_mode one_day_prices) = Inr []"
    by (simp add: rm no)
  from cur [unfolded ch] a sg show ?thesis by blast
qed

section \<open>The three metrics\<close>

lemma risk_adjusted_Fin:
  "xs \<noteq> [] \<Longrightarrow>
   risk_adjusted (map Fin xs)
     = fdiv (Fin (mean xs * 252 * 100)) (Fin (population_std xs * sqrt 252 * 100))"
  by (simp add: risk_adjusted_def risk_ratio_def annual_return_Fin st_dev_Fin)

lemma rint_0: "rint 0 = 0"
  by (simp add: rint_def)

lemma rint_le: "x \<le> of_int n \<Longrightarrow> rint x \<le> n"
proof -
  assume x: "x \<le> of_int n"
  have f: "\<lfloor>x\<rfloor> \<le> n" using x by (simp add: floor_le_iff)
  show ?thesis
  proof (cases "x - of_int \<lfloor>x\<rfloor> < 1 / 2")
    case True
    then show ?thesis using f by (simp add: rint_def Let_def)
  next
    case False
    then have "of_int \<lfloor>x\<rfloor> < x" by linarith
    with x have "of_int \<lfloor>x\<rfloor> < (of_int n :: real)" by linarith
    then have "\<lfloor>x\<rfloor> < n" by simp
    then show ?thesis by (simp add: rint_def Let_def)
  qed
qed

lemma mean_example: "mean example_returns = 1 / 800"
  by (simp add: mean_def example_returns_def)

lemma std_example: "population_std example_returns = sqrt (23 / 128000)"
  by (simp add: population_std_def mean_example) (simp add: example_returns_def)


lemma st_dev_example_sq:
  "population_std example_returns * sqrt 252 = sqrt (5796 / 128000)"
  by (simp add: std_example real_sqrt_mult [symmetric])

lemma st_dev_example_bounds:
  "1 / 5 < population_std example_returns * sqrt 252
   \<and> population_std example_returns * sqrt 252 < 1"
proof -
  have "(1 / 5 :: real)\<^sup>2 < 5796 / 128000" by (simp add: power2_eq_square)
  then have a: "1 / 5 < sqrt (5796 / 128000 :: real)" by (rule real_less_rsqrt)
  have b: "sqrt (5796 / 128000 :: real) < 1" by simp
  from a b show ?thesis by (simp only: st_dev_example_sq)
qed


text \<open>
  C2 (as amended).  For a return series of finite values that is not empty, the annual
  return is \<open>mean \<times> 252 \<times> 100\<close>, and the risk adjusted return is the annual return divided
  by \<open>st_dev * 100\<close>, that is by the standard deviation in percent,
  \<open>populationStdDev \<times> sqrt 252 \<times> 100\<close>: percent over percent, not percent over fraction.
  The number shown is this quotient rounded to four decimals.
\<close>

theorem risk_adjusted_ratio:
  assumes "xs \<noteq> []"
  shows "annual_return (map Fin xs) = Fin (mean xs * 252 * 100)
       \<and> risk_adjusted (map Fin xs)
           = fdiv (Fin (mean xs * 252 * 100)) (Fin (population_std xs * sqrt 252 * 100))
       \<and> (population_std xs \<noteq> 0 \<longrightarrow>
            risk_adjusted (map Fin xs)
              = Fin (mean xs * 252 * 100 / (population_std xs * sqrt 252 * 100)))
       \<and> metrics (map Fin xs) ! 2
           = Metric ''Risk Adjusted Return'' (round4 (risk_adjusted (map Fin xs))) ''%''"
  using assms
  by (simp add: risk_adjusted_Fin annual_return_Fin metrics_def)

lemma risk_adjusted_example:
  "risk_adjusted (map Fin example_returns) = Fin (63 / 2 / (sqrt (5796 / 128000) * 100))"
proof -
  have ne: "example_returns \<noteq> []" by (simp add: example_returns_def)
  have "risk_adjusted (map Fin example_returns)
          = fdiv (Fin (mean example_returns * 252 * 100))
                 (Fin (population_std example_returns * sqrt 252 * 100))"
    using ne by (rule risk_adjusted_Fin)
  also have "\<dots> = fdiv (Fin (63 / 2)) (Fin (sqrt (5796 / 128000) * 100))"
    by (simp only: st_dev_example_sq mean_example) simp
  also have "\<dots> = Fin (63 / 2 / (sqrt (5796 / 128000) * 100))"
    by simp
  finally show ?thesis .
qed

theorem risk_adjusted_ratio_witness:
  "risk_adjusted (map Fin example_returns) = Fin (63 / 2 / (sqrt (5796 / 128000) * 100))
   \<and> annual_return (map Fin example_returns) = Fin (63 / 2)"
proof -
  have ne: "example_returns \<noteq> []" by (simp add: example_returns_def)
  have nz: "population_std example_returns \<noteq> 0" by (simp add: std_example)
  from risk_adjusted_ratio [OF ne] nz
  have a: "annual_return (map Fin example_returns) = Fin (mean example_returns * 252 * 100)"
    and r: "risk_adjusted (map Fin example_returns)
              = Fin (mean example_returns * 252 * 100
                     / (population_std example_returns * sqrt 252 * 100))"
    by blast+
  have r': "risk_adjusted (map Fin example_returns) = Fin (63 / 2 / (sqrt (5796 / 128000) * 100))"
    unfolding r by (simp only: st_dev_example_sq mean_example) simp
  have a': "annual_return (map Fin example_returns) = Fin (63 / 2)"
    unfolding a by (simp add: mean_example)
  from r' a' show ?thesis by blast
qed


lemma round4_le: "x * 10000 \<le> of_int n \<Longrightarrow> round4 (Fin x) = Fin y \<Longrightarrow> y \<le> of_int n / 10000"
  using rint_le [of "x * 10000" n] by (auto simp: divide_right_mono)

text \<open>
  C2 as stated fails on the series of the specification's own example: neither the
  quotient computed nor the number shown equals the annual return divided by the
  fractional standard deviation (they are a hundred times smaller).
\<close>

theorem risk_adjusted_example_counterexample:
  "risk_adjusted (map Fin example_returns)
     \<noteq> Fin (mean example_returns * 252 * 100
            / (population_std example_returns * sqrt 252 * 100 / 100))
   \<and> round4 (risk_adjusted (map Fin example_returns))
     \<noteq> Fin (mean example_returns * 252 * 100
            / (population_std example_returns * sqrt 252 * 100 / 100))"
proof -
  define S where "S = sqrt (5796 / 128000 :: real)"
  have S: "1 / 5 < S" "S < 1"
    using st_dev_example_bounds by (simp_all add: S_def st_dev_example_sq)
  have claimed: "mean example_returns * 252 * 100
            / (population_std example_returns * sqrt 252 * 100 / 100) = 63 / 2 / S"
    by (simp only: st_dev_example_sq mean_example S_def)
  have code: "risk_adjusted (map Fin example_returns) = Fin (63 / 2 / (S * 100))"
    by (simp add: risk_adjusted_example S_def)
  have big: "63 / 2 < 63 / 2 / S"
    using S by (simp add: field_simps)
  have small: "63 / 2 / (S * 100) * 10000 \<le> of_int 15750"
    using S by (simp add: field_simps)
  have a: "Fin (63 / 2 / (S * 100)) \<noteq> Fin (63 / 2 / S)"
    using S by (simp add: field_simps)
  have b: "round4 (Fin (63 / 2 / (S * 100))) \<noteq> Fin (63 / 2 / S)"
  proof
    assume "round4 (Fin (63 / 2 / (S * 100))) = Fin (63 / 2 / S)"
    from round4_le [OF small this] have "63 / 2 / S \<le> 15750 / 10000" by simp
    with big show False by simp
  qed
  show ?thesis unfolding claimed code using a b by blast
qed


text \<open>
  C3.  The annual return is shown in percent (\<open>annual_return_shown\<close> below).  The standard
  deviation is not: \<open>st_dev\<close> is \<open>populationStdDev \<times> sqrt 252\<close> without the factor 100,
  and this fraction is what is shown, followed by the suffix \<open>%\<close>.  On the example series
  the number shown is below 1, while the standard deviation in percent is above 20.
\<close>

theorem standard_deviation_shown_as_fraction:
  "st_dev (map Fin example_returns) = Fin (population_std example_returns * sqrt 252)
   \<and> metrics (map Fin example_returns) ! 1
       = Metric ''Standard Deviation''
           (round4 (Fin (population_std example_returns * sqrt 252))) ''%''
   \<and> population_std example_returns * sqrt 252 < 1
   \<and> 20 < population_std example_returns * sqrt 252 * 100
   \<and> round4 (Fin (population_std example_returns * sqrt 252))
       \<noteq> Fin (population_std example_returns * sqrt 252 * 100)"
proof -
  define S where "S = population_std example_returns * sqrt 252"
  have S: "1 / 5 < S" "S < 1"
    using st_dev_example_bounds by (simp_all add: S_def)
  have ne: "example_returns \<noteq> []" by (simp add: example_returns_def)
  have a: "st_dev (map Fin example_returns) = Fin S"
    using ne by (simp add: st_dev_Fin S_def)
  have b: "metrics (map Fin example_returns) ! 1 = Metric ''Standard Deviation'' (round4 (Fin S)) ''%''"
    by (simp add: metrics_def a)
  have c: "20 < S * 100" using S by simp
  have small: "S * 10000 \<le> of_int 10000" using S by simp
  have d: "round4 (Fin S) \<noteq> Fin (S * 100)"
  proof
    assume "round4 (Fin S) = Fin (S * 100)"
    from round4_le [OF small this] have "S * 100 \<le> 1" by simp
    with c show False by simp
  qed
  from a b S(2) c d show ?thesis unfolding S_def by blast
qed

lemma annual_return_shown:
  "xs \<noteq> [] \<Longrightarrow>
   metrics (map Fin xs) ! 0 = Metric ''Annual Return'' (round4 (Fin (mean xs * 252 * 100))) ''%''"
  by (simp add: metrics_def annual_return_Fin)

lemma series_single: "series_mean [Fin x] = Fin x \<and> series_std [Fin x] = Fin 0"
  by (simp add: series_mean_def series_std_def skipna_def fsum_def fsub_def)

lemma risk_ratio_zero:
  "risk_ratio a (Fin 0)
     = (case a of Fin y \<Rightarrow> (if y = 0 then NaN else if y < 0 then NInf else PInf)
                | PInf \<Rightarrow> PInf | NInf \<Rightarrow> NInf | NaN \<Rightarrow> NaN)"
  by (cases a) (simp_all add: risk_ratio_def inf_of_sign_def)

text \<open>
  C7 (as amended).  The quotient \<open>annual_return/(st_dev*100)\<close> is a division of two numpy
  floats, and nothing guards it.  When the standard deviation that was computed is exactly
  zero, the division raises nothing and no error is signalled: the quotient is NaN when
  the annual return computed is zero or NaN, and otherwise the infinity with the sign of
  the annual return.  A series of a single return \<open>x\<close> is such a case, on the machine as
  in this model: its mean is \<open>x\<close>, its squared distance from the mean is \<open>0\<close>, so the
  deviation computed is exactly zero, and the risk adjusted return shown is NaN for
  \<open>x = 0\<close>, minus infinity for \<open>x < 0\<close> and plus infinity for \<open>0 < x\<close>.  For a series of
  several equal returns the deviation computed by the machine can differ from zero by a
  rounding error; then the quotient is the ordinary, finite one.
\<close>

theorem zero_deviation_quotient:
  "risk_ratio a (Fin 0)
     = (case a of Fin y \<Rightarrow> (if y = 0 then NaN else if y < 0 then NInf else PInf)
                | PInf \<Rightarrow> PInf | NInf \<Rightarrow> NInf | NaN \<Rightarrow> NaN)
   \<and> st_dev [Fin x] = Fin 0
   \<and> risk_adjusted [Fin x] = (if x = 0 then NaN else if x < 0 then NInf else PInf)
   \<and> metrics [Fin x] ! 1 = Metric ''Standard Deviation'' (Fin 0) ''%''
   \<and> metrics [Fin x] ! 2
       = Metric ''Risk Adjusted Return''
           (if x = 0 then NaN else if x < 0 then NInf else PInf) ''%''"
proof -
  have s: "st_dev [Fin x] = Fin 0"
    by (simp add: st_dev_def series_single)
  have a: "annual_return [Fin x] = Fin (x * 252 * 100)"
    by (simp add: annual_return_def series_single)
  have r: "risk_adjusted [Fin x] = (if x = 0 then NaN else if x < 0 then NInf else PInf)"
    by (simp add: risk_adjusted_def s a risk_ratio_zero mult_less_0_iff)
  have m1: "metrics [Fin x] ! 1 = Metric ''Standard Deviation'' (Fin 0) ''%''"
    by (simp add: metrics_def s rint_0)
  have m2: "metrics [Fin x] ! 2
              = Metric ''Risk Adjusted Return''
                  (if x = 0 then NaN else if x < 0 then NInf else PInf) ''%''"
    by (simp add: metrics_def r)
  from risk_ratio_zero [of a] s r m1 m2 show ?thesis by blast
qed

theorem zero_deviation_quotient_witness:
  "risk_ratio (Fin 3150) (Fin 0) = PInf
   \<and> risk_ratio NaN (Fin 0) = NaN
   \<and> risk_adjusted [Fin 0] = NaN
   \<and> risk_adjusted [Fin (- (1 / 8))] = NInf"
proof -
  have a: "risk_ratio (Fin 3150) (Fin 0) = PInf"
    using zero_deviation_quotient [of "Fin 3150" 0] by simp
  have b: "risk_ratio NaN (Fin 0) = NaN"
    using zero_deviation_quotient [of NaN 0] by simp
  have c: "risk_adjusted [Fin 0] = NaN"
    using zero_deviation_quotient [of NaN 0] by simp
  have d: "risk_adjusted [Fin (- (1 / 8))] = NInf"
    using zero_deviation_quotient [of NaN "- (1 / 8)"] by simp
  from a b c d show ?thesis by blast
qed

text \<open>
  C7 as stated fails on a series of one return of \<open>1/8\<close> (a closing price of 8 followed
  by one of 9; every number of the computation is exact in binary): the annual return is
  3150, the deviation is zero, and the risk adjusted return shown is plus infinity, which
  is neither an error signal nor NaN.
\<close>

theorem infinite_ratio_counterexample:
  "annual_return [Fin (1 / 8)] = Fin 3150
   \<and> st_dev [Fin (1 / 8)] = Fin 0
   \<and> risk_adjusted [Fin (1 / 8)] = PInf
   \<and> metrics [Fin (1 / 8)] ! 2 = Metric ''Risk Adjusted Return'' PInf ''%''"
  by (simp add: metrics_def risk_adjusted_def risk_ratio_def annual_return_def st_dev_def
      series_mean_def series_std_def skipna_def fsum_def fsub_def inf_of_sign_def)

end
